theory Spec2Isabelle
  imports Main "HOL-Library.Monad_Syntax" "HOL-Library.Log_Nat"
begin

section \<open>Data model\<close>

text \<open>
  The client record of the API.  The source declares
  \<^verbatim>\<open>interface IPerson { name: string; cpf: string; rg?: string }\<close>,
  \<^verbatim>\<open>interface IAddress { cep: string; street?: string; neighborhood?: string;
  city?: string; state?: string }\<close> and
  \<^verbatim>\<open>interface IClient extends IPerson, IAddress { id: number; email: string }\<close>.
  The specification calls \<open>cpf\<close> the tax id, \<open>cep\<close> the postal code and \<open>rg\<close> the
  registry id.

  Conventions of the embedding:
  \<^item> a string is a list of characters, one \<open>char\<close> per UTF-16 code unit (all the
    literals of the source that are used here lie below code unit 256);
  \<^item> an optional property is an \<open>option\<close>: \<open>None\<close> is a property that is absent.
    Request bodies are produced by a JSON parser, so a property never carries the
    value \<open>undefined\<close>;
  \<^item> the numeric \<open>id\<close> is a \<open>number\<close> of the platform, defined below;
  \<^item> the argument of \<open>create\<close> has the declared type \<open>Omit<IClient, "id">\<close>: it is the
    record \<open>NewClient\<close>, and \<open>IClient\<close> extends it by the field \<open>id'\<close> (the name \<open>id\<close>
    is HOL's identity function).
\<close>

text \<open>
  The numbers of the platform are IEEE 754 double-precision values.  A finite one is
  given by the rational number it denotes; negative zero, the two infinities and \<open>NaN\<close>
  stand beside them.  A request body reaches each of them but \<open>NaN\<close> (\<open>-0\<close>, and \<open>1e999\<close>
  for \<open>Infinity\<close>); \<open>parseInt\<close> and \<open>Number\<close> yield \<open>NaN\<close> for a path segment that is not a
  number.
\<close>

datatype number = Finite rat | NegZero | Infinity | NegInfinity | NaN

text \<open>A whole number as a number of the platform.\<close>

definition whole :: "int \<Rightarrow> number" where
  "whole k = Finite (of_int k)"


text \<open>
  Rounding a rational number that is not zero to the nearest double, ties to the even
  significand: \<open>exponent q\<close> is the integer \<open>e\<close> with \<open>2\<^sup>e \<le> |q| < 2\<^sup>e\<^sup>+\<^sup>1\<close>, the unit in
  the last place of a significand of 53 bits is \<open>2\<^sup>e\<^sup>-\<^sup>5\<^sup>2\<close> (from \<open>e = -1022\<close> downwards the
  numbers are subnormal and keep the unit \<open>2\<^sup>-\<^sup>1\<^sup>0\<^sup>7\<^sup>4\<close>), and a result of \<open>2\<^sup>1\<^sup>0\<^sup>2\<^sup>4\<close> or more is
  infinite.
\<close>

definition exponent :: "rat \<Rightarrow> int" where
  "exponent q =
     (let (a, b) = quotient_of \<bar>q\<bar>; d = bitlen a - bitlen b
      in if 2 powi d \<le> \<bar>q\<bar> then d else d - 1)"

definition round_half_even :: "rat \<Rightarrow> int" where
  "round_half_even x =
     (let f = \<lfloor>x\<rfloor>; r = x - of_int f
      in if r < 1 / 2 then f else if 1 / 2 < r then f + 1
         else if even f then f else f + 1)"

definition to_double :: "rat \<Rightarrow> number" where
  "to_double q =
     (if q = 0 then Finite 0
      else
        let e = max (exponent q) (- 1022);
            ulp = 2 powi (e - 52);
            v = of_int (round_half_even (\<bar>q\<bar> / ulp)) * ulp
        in if 2 powi 1024 \<le> v then (if 0 < q then Infinity else NegInfinity)
           else if v = 0 then (if 0 < q then Finite 0 else NegZero)
           else Finite (sgn q * v))"

text \<open>
  The expression \<open>x + 1\<close> of the source on a number \<open>x\<close>: the exact sum, rounded.  The
  sum of \<open>-1\<close> and \<open>1\<close> is the positive zero.
\<close>

definition plus_one :: "number \<Rightarrow> number" where
  "plus_one x =
     (case x of
        Finite q \<Rightarrow> to_double (q + 1)
      | NegZero \<Rightarrow> Finite 1
      | Infinity \<Rightarrow> Infinity
      | NegInfinity \<Rightarrow> NegInfinity
      | NaN \<Rightarrow> NaN)"

text \<open>
  The comparison \<open>a === b\<close> of two numbers: \<open>NaN\<close> is equal to nothing, the two zeros
  are equal to each other.
\<close>

definition unsigned_zero :: "number \<Rightarrow> number" where
  "unsigned_zero x = (case x of NegZero \<Rightarrow> Finite 0 | _ \<Rightarrow> x)"

definition strict_eq :: "number \<Rightarrow> number \<Rightarrow> bool" where
  "strict_eq a b = (a \<noteq> NaN \<and> b \<noteq> NaN \<and> unsigned_zero a = unsigned_zero b)"

record NewClient =
  name :: string
  cpf :: string
  rg :: "string option"
  cep :: string
  street :: "string option"
  neighborhood :: "string option"
  city :: "string option"
  state :: "string option"
  email :: string

record IClient = NewClient +
  id' :: number

text \<open>
  \<open>Partial<IClient>\<close>, the argument of \<open>update\<close>: every property of \<open>IClient\<close>,
  the \<open>id\<close> included, may be present or absent.
\<close>

record PartialClient =
  p_id :: "number option"
  p_name :: "string option"
  p_cpf :: "string option"
  p_rg :: "string option"
  p_cep :: "string option"
  p_street :: "string option"
  p_neighborhood :: "string option"
  p_city :: "string option"
  p_state :: "string option"
  p_email :: "string option"

text \<open>
  A JSON value as the program holds it: the shape of request bodies, of response
  bodies and of the content of the storage file.  The text level of JSON (white space,
  escapes, the digits of a number) belongs to the platform and is not modelled.  An
  object is the list of its properties in order.  A number that was parsed from text
  may be infinite; a number that is written is finite (see \<open>json_number\<close>).
\<close>

datatype json =
    JNull
  | JBool bool
  | JNum number
  | JStr string
  | JArr "json list"
  | JObj "(string \<times> json) list"

text \<open>
  How \<open>JSON.stringify\<close> writes a number: \<open>NaN\<close> and the infinities become \<open>null\<close>, the
  negative zero becomes \<open>0\<close>, every other number is written so that it reads back as
  itself.
\<close>

definition json_number :: "number \<Rightarrow> json" where
  "json_number x =
     (case x of
        Finite q \<Rightarrow> JNum (Finite q)
      | NegZero \<Rightarrow> JNum (Finite 0)
      | _ \<Rightarrow> JNull)"

text \<open>
  How a client record appears as a JSON object (\<open>res.json(user)\<close> and
  \<open>JSON.stringify\<close>): one property per field that is present, in the order of the
  seed literals of the source.
\<close>

definition opt_prop :: "string \<Rightarrow> string option \<Rightarrow> (string \<times> json) list" where
  "opt_prop k v = (case v of None \<Rightarrow> [] | Some s \<Rightarrow> [(k, JStr s)])"

definition client_props :: "IClient \<Rightarrow> (string \<times> json) list" where
  "client_props u =
     [(''id'', json_number (id' u)), (''email'', JStr (email u)), (''name'', JStr (name u)),
      (''cpf'', JStr (cpf u))]
     @ opt_prop ''rg'' (rg u)
     @ [(''cep'', JStr (cep u))]
     @ opt_prop ''street'' (street u)
     @ opt_prop ''neighborhood'' (neighborhood u)
     @ opt_prop ''city'' (city u)
     @ opt_prop ''state'' (state u)"

definition client_json :: "IClient \<Rightarrow> json" where
  "client_json u = JObj (client_props u)"

section \<open>UserRepository\<close>

text \<open>
  The state of the repository object: the array \<open>users\<close> and the storage file behind
  \<open>filePath\<close>.  The file is \<open>Unreadable\<close> when \<open>fs.readFile\<close> or \<open>JSON.parse\<close> would
  throw (no file, or text that is not JSON), and otherwise holds a JSON document.
  \<open>writes\<close> counts the calls of \<open>fs.writeFile\<close>; it is not a field of the source and
  only serves to state that an operation does not write.

  Every method of the class is \<open>async\<close>; the platform runs one handler at a time and
  the embedding runs each method to completion.  Writing the file is taken to succeed.
\<close>

datatype file_content = Unreadable | Document json

record Repo =
  users :: "IClient list"
  storage :: file_content
  writes :: nat

text \<open>\<^verbatim>\<open>JSON.stringify(this.users, null, 2)\<close>: the array of the records, in order.\<close>

definition stringify_users :: "IClient list \<Rightarrow> json" where
  "stringify_users us = JArr (map client_json us)"

text \<open>
  \<^verbatim>\<open>private async saveToFile(): Promise<void> {
    await fs.writeFile(this.filePath, JSON.stringify(this.users, null, 2), "utf-8");
  }\<close>
\<close>

definition saveToFile :: "Repo \<Rightarrow> Repo" where
  "saveToFile r = r\<lparr>storage := Document (stringify_users (users r)), writes := Suc (writes r)\<rparr>"

text \<open>\<^verbatim>\<open>public async getAll(): Promise<IClient[]> { return this.users; }\<close>\<close>

definition getAll :: "Repo \<Rightarrow> IClient list" where
  "getAll r = users r"

text \<open>
  \<^verbatim>\<open>public async getById(id: number): Promise<IClient | undefined> {
    return this.users.find(u => u.id === id);
  }\<close>
  The routes compute the argument with \<open>parseInt\<close> or \<open>Number\<close>.
\<close>

definition id_is :: "number \<Rightarrow> IClient \<Rightarrow> bool" where
  "id_is i u = strict_eq (id' u) i"

definition getById :: "number \<Rightarrow> Repo \<Rightarrow> IClient option" where
  "getById i r = find (id_is i) (users r)"

text \<open>
  \<open>Array.prototype.findIndex\<close>: the index of the first element that satisfies the
  predicate, or \<open>-1\<close>.
\<close>

fun findIndex_from :: "('a \<Rightarrow> bool) \<Rightarrow> 'a list \<Rightarrow> int \<Rightarrow> int" where
  "findIndex_from P [] k = - 1"
| "findIndex_from P (x # xs) k = (if P x then k else findIndex_from P xs (k + 1))"

definition findIndex :: "('a \<Rightarrow> bool) \<Rightarrow> 'a list \<Rightarrow> int" where
  "findIndex P xs = findIndex_from P xs 0"

text \<open>
  \<^verbatim>\<open>public async create(user: Omit<IClient, "id">): Promise<IClient> {
    const newUser: IClient = {
      ...user,
      id: ((this.users.slice(-1)[0]?.id) ?? 0) + 1
    };
    this.users.push(newUser);
    await this.saveToFile();
    return newUser;
  }\<close>
  \<open>slice(-1)[0]\<close> is the last element of the array, or \<open>undefined\<close> when it is empty.
\<close>

definition last_id :: "IClient list \<Rightarrow> number" where
  "last_id us = (case us of [] \<Rightarrow> Finite 0 | _ \<Rightarrow> id' (last us))"

definition with_id :: "NewClient \<Rightarrow> number \<Rightarrow> IClient" where
  "with_id user n =
     \<lparr>name = name user, cpf = cpf user, rg = rg user, cep = cep user,
      street = street user, neighborhood = neighborhood user, city = city user,
      state = state user, email = email user, id' = n\<rparr>"

definition create :: "NewClient \<Rightarrow> Repo \<Rightarrow> IClient \<times> Repo" where
  "create user r =
     (let newUser = with_id user (plus_one (last_id (users r)));
          r1 = r\<lparr>users := users r @ [newUser]\<rparr>;
          r2 = saveToFile r1
      in (newUser, r2))"

text \<open>
  The spread \<open>{ ...this.users[index], ...data }\<close>: every property that \<open>data\<close> has
  replaces the property of the stored record, every other property is kept.
\<close>

definition over :: "'a \<Rightarrow> 'a option \<Rightarrow> 'a" where
  "over old new = (case new of None \<Rightarrow> old | Some v \<Rightarrow> v)"

definition over_opt :: "'a option \<Rightarrow> 'a option \<Rightarrow> 'a option" where
  "over_opt old new = (case new of None \<Rightarrow> old | Some v \<Rightarrow> Some v)"

definition spread :: "IClient \<Rightarrow> PartialClient \<Rightarrow> IClient" where
  "spread u d =
     \<lparr>name = over (name u) (p_name d), cpf = over (cpf u) (p_cpf d),
      rg = over_opt (rg u) (p_rg d), cep = over (cep u) (p_cep d),
      street = over_opt (street u) (p_street d),
      neighborhood = over_opt (neighborhood u) (p_neighborhood d),
      city = over_opt (city u) (p_city d), state = over_opt (state u) (p_state d),
      email = over (email u) (p_email d), id' = over (id' u) (p_id d)\<rparr>"

text \<open>
  \<^verbatim>\<open>public async update(id: number, data: Partial<IClient>): Promise<IClient | null> {
    const index = this.users.findIndex(u => u.id === id);
    if (index === -1) return null;

    this.users[index] = { ...this.users[index], ...data } as IClient;
    await this.saveToFile();
    return this.users[index] ?? null;
  }\<close>
\<close>

definition update :: "number \<Rightarrow> PartialClient \<Rightarrow> Repo \<Rightarrow> IClient option \<times> Repo" where
  "update i data r =
     (let index = findIndex (id_is i) (users r) in
      if index = - 1 then (None, r)
      else
        let r1 = r\<lparr>users := (users r)[nat index := spread (users r ! nat index) data]\<rparr>;
            r2 = saveToFile r1
        in (Some (users r2 ! nat index), r2))"

text \<open>
  \<^verbatim>\<open>public async delete(id: number): Promise<IClient | null> {
    const index = this.users.findIndex(u => u.id === id);
    if (index === -1) return null;

    const deletedUser = this.users.splice(index, 1)[0];
    await this.saveToFile();
    return deletedUser ?? null;
  }\<close>
  \<open>splice(index, 1)\<close> removes the element at \<open>index\<close> and returns it.
\<close>

definition delete :: "number \<Rightarrow> Repo \<Rightarrow> IClient option \<times> Repo" where
  "delete i r =
     (let index = findIndex (id_is i) (users r) in
      if index = - 1 then (None, r)
      else
        let deletedUser = users r ! nat index;
            r1 = r\<lparr>users := take (nat index) (users r) @ drop (Suc (nat index)) (users r)\<rparr>;
            r2 = saveToFile r1
        in (Some deletedUser, r2))"

text \<open>
  Reading the storage file back: \<^verbatim>\<open>JSON.parse(data) as IClient[]\<close>.  The cast is
  unchecked in the source.  A document that is an array of objects with the properties
  of \<open>IClient\<close> is read as those records (properties the interface does not declare
  are not represented); a document of any other shape would leave values in \<open>users\<close>
  that the declared type excludes, and is \<open>None\<close> here: the typed embedding says
  nothing about it.  The properties of an object have distinct names.
\<close>

definition num_prop :: "(string \<times> json) list \<Rightarrow> string \<Rightarrow> number option" where
  "num_prop ps k = (case map_of ps k of Some (JNum n) \<Rightarrow> Some n | _ \<Rightarrow> None)"

definition str_prop :: "(string \<times> json) list \<Rightarrow> string \<Rightarrow> string option" where
  "str_prop ps k = (case map_of ps k of Some (JStr s) \<Rightarrow> Some s | _ \<Rightarrow> None)"





text \<open>
  The three records that \<open>init\<close> falls back to.  Their \<open>cpf\<close> comes from the library
  function \<open>fake()\<close>, which draws a random valid number: \<open>fake k\<close> is what its \<open>k\<close>-th
  call returns.
\<close>

definition seed_users :: "(nat \<Rightarrow> string) \<Rightarrow> IClient list" where
  "seed_users fake =
     [\<lparr>name = ''Felipe'', cpf = fake 0, rg = Some ''111111111'', cep = ''11111111'',
       street = Some ''Rua um'', neighborhood = Some ''Bairro um'',
       city = Some ''Cidade um'', state = Some ''Estado um'',
       email = ''felipe@example.com'', id' = Finite 1\<rparr>,
      \<lparr>name = ''Maria'', cpf = fake 1, rg = Some ''222222222'', cep = ''22222222'',
       street = Some ''Rua dois'', neighborhood = Some ''Bairro dois'',
       city = Some ''Cidade dois'', state = Some ''Estado dois'',
       email = ''maria@example.com'', id' = Finite 2\<rparr>,
      \<lparr>name = ''Andr'' @ [CHR 0xE9], cpf = fake 2, rg = Some ''333333333'',
       cep = ''33333333'',
       street = Some (''Rua tr'' @ [CHR 0xEA] @ ''s''),
       neighborhood = Some (''Bairro tr'' @ [CHR 0xEA] @ ''s''),
       city = Some (''Cidade tr'' @ [CHR 0xEA] @ ''s''),
       state = Some (''Estado tr'' @ [CHR 0xEA] @ ''s''),
       email = ''andre@example.com'', id' = Finite 3\<rparr>]"



text \<open>A sequence of mutating calls on the repository, run one after the other.\<close>

datatype operation =
    Create NewClient
  | Update number PartialClient
  | Delete number

fun apply_operation :: "operation \<Rightarrow> Repo \<Rightarrow> Repo" where
  "apply_operation (Create user) r = snd (create user r)"
| "apply_operation (Update i data) r = snd (update i data r)"
| "apply_operation (Delete i) r = snd (delete i r)"

fun run :: "operation list \<Rightarrow> Repo \<Rightarrow> Repo" where
  "run [] r = r"
| "run (x # xs) r = run xs (apply_operation x r)"

section \<open>Schemas\<close>

text \<open>
  The schemas are values of the validation library; the embedding keeps the part of the
  library that the two schemas use.  A string schema carries its checks, each with the
  message of the source:
  \<open>z.string().min(n, {message})\<close>, \<open>.email({message})\<close>, \<open>.refine(p, {message})\<close>,
  \<open>.length(n, {message})\<close>; \<open>.optional()\<close> accepts a property that is absent.
  The length of a string is its number of code units.  The shape of an e-mail address
  is decided by the library (\<open>isEmail\<close>), the validity of a tax id by the function
  \<open>isCPF\<close> of another library: both are parameters.
\<close>

datatype string_check =
    Min nat string
  | Email string
  | Refine "string \<Rightarrow> bool" string
  | Length nat string

datatype zod_type =
    ZString "string_check list"
  | ZOptional zod_type

type_synonym ZodObject = "(string \<times> zod_type) list"

text \<open>
  What the library reports for one property: \<open>InvalidType\<close> when a string is required
  and the property is absent or is not a string (the wording is the library's), or the
  message of the check that failed.
\<close>

datatype problem = InvalidType | Message string

definition run_check :: "(string \<Rightarrow> bool) \<Rightarrow> string_check \<Rightarrow> string \<Rightarrow> problem list" where
  "run_check isEmail c s =
     (case c of
        Min n m \<Rightarrow> if length s < n then [Message m] else []
      | Email m \<Rightarrow> if isEmail s then [] else [Message m]
      | Refine p m \<Rightarrow> if p s then [] else [Message m]
      | Length n m \<Rightarrow> if length s = n then [] else [Message m])"

fun parse_type :: "(string \<Rightarrow> bool) \<Rightarrow> zod_type \<Rightarrow> json option \<Rightarrow> problem list" where
  "parse_type isEmail (ZString cs) v =
     (case v of
        Some (JStr s) \<Rightarrow> concat (map (\<lambda>c. run_check isEmail c s) cs)
      | _ \<Rightarrow> [InvalidType])"
| "parse_type isEmail (ZOptional t) v =
     (case v of None \<Rightarrow> [] | Some x \<Rightarrow> parse_type isEmail t (Some x))"

text \<open>
  \<open>schema.parse(body)\<close> throws a \<open>ZodError\<close> that lists the issues, each with the name of
  its property, or returns when there is none.  Properties that the schema does not
  name are not an issue.  A body that is not an object is one issue with the empty path.
\<close>

definition zod_issues :: "(string \<Rightarrow> bool) \<Rightarrow> ZodObject \<Rightarrow> json \<Rightarrow> (string \<times> problem) list" where
  "zod_issues isEmail schema b =
     (case b of
        JObj ps \<Rightarrow>
          concat (map (\<lambda>(k, t). map (Pair k) (parse_type isEmail t (map_of ps k))) schema)
      | _ \<Rightarrow> [([], InvalidType)])"

text \<open>
  \<^verbatim>\<open>const createUserSchema = z.object({
    name: z.string().min(3, { message: "Nome deve ter ao menos 3 letras" }),
    email: z.string().email({ message: "Formato de email invalido" }),
    cpf: z.string().refine(isCPF, { message: "CPF invalido" }),
    cep: z.string().length(8, { message: "CEP deve conter 8 digitos" }),
    rg: z.string().optional(),
    street: z.string().optional(),
    neighborhood: z.string().optional(),
    city: z.string().optional(),
    state: z.string().optional(),
  });
  const updateUserSchema = createUserSchema.partial();\<close>
  The messages of the source carry accents (\<open>inv\<acute>alido\<close>, \<open>d\<acute>igitos\<close>): the code units
  \<open>0xE1\<close> and \<open>0xED\<close> below.
\<close>

definition createUserSchema :: "(string \<Rightarrow> bool) \<Rightarrow> ZodObject" where
  "createUserSchema isCPF =
     [(''name'', ZString [Min 3 ''Nome deve ter ao menos 3 letras'']),
      (''email'', ZString [Email (''Formato de email inv'' @ [CHR 0xE1] @ ''lido'')]),
      (''cpf'', ZString [Refine isCPF (''CPF inv'' @ [CHR 0xE1] @ ''lido'')]),
      (''cep'', ZString [Length 8 (''CEP deve conter 8 d'' @ [CHR 0xED] @ ''gitos'')]),
      (''rg'', ZOptional (ZString [])),
      (''street'', ZOptional (ZString [])),
      (''neighborhood'', ZOptional (ZString [])),
      (''city'', ZOptional (ZString [])),
      (''state'', ZOptional (ZString []))]"

definition partial :: "ZodObject \<Rightarrow> ZodObject" where
  "partial schema = map (\<lambda>(k, t). (k, ZOptional t)) schema"

definition updateUserSchema :: "(string \<Rightarrow> bool) \<Rightarrow> ZodObject" where
  "updateUserSchema isCPF = partial (createUserSchema isCPF)"

section \<open>Routes\<close>

text \<open>
  What a handler throws or passes to \<open>next\<close>: an \<open>AppError\<close> with its message and status
  code, or any other error (the rejection of the postal-code lookup, with its message).
\<close>

datatype thrown = AppError string nat | OtherError string

record response =
  status :: nat
  body :: json

text \<open>
  \<^verbatim>\<open>const errorMiddleware: ErrorRequestHandler = (err, req, res, _next) => {
    if (err instanceof AppError) {
      return res.status(err.statusCode).json({ status: "error", message: err.message });
    }
    console.error("Erro inesperado:", err);
    return res.status(500).json({ status: "error", message: "Internal Server Error" });
  };\<close>
\<close>

definition errorMiddleware :: "thrown \<Rightarrow> response" where
  "errorMiddleware err =
     (case err of
        AppError m c \<Rightarrow>
          \<lparr>status = c, body = JObj [(''status'', JStr ''error''), (''message'', JStr m)]\<rparr>
      | OtherError m \<Rightarrow>
          \<lparr>status = 500,
           body = JObj [(''status'', JStr ''error''),
                        (''message'', JStr ''Internal Server Error'')]\<rparr>)"

text \<open>
  \<^verbatim>\<open>const validateBody = (schema: ZodObject<any>) => (req, res, next) => {
    try {
      schema.parse(req.body);
      next();
    } catch (error) {
      if (error instanceof z.ZodError) {
        next(new AppError("Invalid request data", 400));
      } else {
        next(error);
      }
    }
  };\<close>
  The result is the argument of \<open>next\<close>: \<open>None\<close> lets the request through to the handler.
  The value that \<open>parse\<close> returns is dropped; the handler reads \<open>req.body\<close> as it came.
\<close>

definition validateBody :: "(string \<Rightarrow> bool) \<Rightarrow> ZodObject \<Rightarrow> json \<Rightarrow> thrown option" where
  "validateBody isEmail schema b =
     (if zod_issues isEmail schema b = [] then None
      else Some (AppError ''Invalid request data'' 400))"

text \<open>
  Every handler has the form \<open>try { ... } catch (error) { next(error); }\<close>, and an error
  that reaches \<open>next\<close> is answered by \<open>errorMiddleware\<close>.
\<close>

definition answer :: "thrown + response \<Rightarrow> response" where
  "answer x = (case x of Inl err \<Rightarrow> errorMiddleware err | Inr res \<Rightarrow> res)"

text \<open>\<^verbatim>\<open>new AppError("Usuario nao encontrado", 404)\<close>, with the accents of the source.\<close>

definition not_found :: thrown where
  "not_found = AppError (''Usu'' @ [CHR 0xE1] @ ''rio n'' @ [CHR 0xE3] @ ''o encontrado'') 404"

text \<open>
  \<^verbatim>\<open>app.get("/users/isCPF/:id", async (req, res, next) => {
    try {
      const id = parseInt(req.params.id, 10);
      const user = await userRepo.getById(id);
      if (!user) throw new AppError("Usuario nao encontrado", 404);
      res.send({ message: isCPF(user.cpf) ? "cpf valido" : "cpf invalido" });
    } catch (error) { next(error); }
  });\<close>
  The handlers take the number that \<open>parseInt\<close> or \<open>Number\<close> makes of the path
  segment and the state of the repository, and return the response with the state they
  leave.
\<close>

definition get_isCPF :: "(string \<Rightarrow> bool) \<Rightarrow> number \<Rightarrow> Repo \<Rightarrow> response \<times> Repo" where
  "get_isCPF isCPF i r =
     (answer
        (case getById i r of
           None \<Rightarrow> Inl not_found
         | Some user \<Rightarrow>
             Inr \<lparr>status = 200,
                  body = JObj [(''message'',
                    JStr (if isCPF (cpf user) then ''cpf v'' @ [CHR 0xE1] @ ''lido''
                          else ''cpf inv'' @ [CHR 0xE1] @ ''lido''))]\<rparr>),
      r)"

text \<open>
  \<^verbatim>\<open>app.get("/users/isCEP/:id", async (req, res, next) => {
    try {
      const id = parseInt(req.params.id, 10);
      const user = await userRepo.getById(id);
      if (!user) throw new AppError("Usuario nao encontrado", 404);
      const addressData = await cep(user.cep);
      res.status(200).json({ message: "User's CEP is valid.", cep: user.cep,
                             address: addressData });
    } catch (error) { next(error); }
  });\<close>
  \<open>cep\<close> is the client of the external lookup service, a parameter (\<open>lookup\<close>): it
  resolves to an address, or rejects with an error that carries a message.
\<close>

definition get_isCEP :: "(string \<Rightarrow> string + json) \<Rightarrow> number \<Rightarrow> Repo \<Rightarrow> response \<times> Repo" where
  "get_isCEP lookup i r =
     (answer
        (case getById i r of
           None \<Rightarrow> Inl not_found
         | Some user \<Rightarrow>
             (case lookup (cep user) of
                Inl m \<Rightarrow> Inl (OtherError m)
              | Inr addressData \<Rightarrow>
                  Inr \<lparr>status = 200,
                       body = JObj [(''message'', JStr (''User'' @ [CHR 0x27] @ ''s CEP is valid.'')),
                                    (''cep'', JStr (cep user)),
                                    (''address'', addressData)]\<rparr>)),
      r)"

text \<open>
  The handlers of \<open>POST\<close> and \<open>PUT\<close> declare the type of \<open>req.body\<close>
  (\<open>Omit<IClient, "id">\<close> and \<open>Partial<IClient>\<close>) and pass it on unchanged.  The two
  functions below read a body at that type: a property that the type declares and the
  body carries as a string (for \<open>id\<close>: as a number) is taken over.  On a body that
  \<open>createUserSchema\<close> lets through every required property is a string, so the empty
  default of \<open>required\<close> is never taken there.
\<close>

definition props_of :: "json \<Rightarrow> (string \<times> json) list" where
  "props_of b = (case b of JObj ps \<Rightarrow> ps | _ \<Rightarrow> [])"

definition required :: "(string \<times> json) list \<Rightarrow> string \<Rightarrow> string" where
  "required ps k = (case str_prop ps k of Some s \<Rightarrow> s | None \<Rightarrow> [])"

definition as_NewClient :: "json \<Rightarrow> NewClient" where
  "as_NewClient b =
     (let ps = props_of b in
      \<lparr>name = required ps ''name'', cpf = required ps ''cpf'', rg = str_prop ps ''rg'',
       cep = required ps ''cep'', street = str_prop ps ''street'',
       neighborhood = str_prop ps ''neighborhood'', city = str_prop ps ''city'',
       state = str_prop ps ''state'', email = required ps ''email''\<rparr>)"

definition as_PartialClient :: "json \<Rightarrow> PartialClient" where
  "as_PartialClient b =
     (let ps = props_of b in
      \<lparr>p_id = num_prop ps ''id'', p_name = str_prop ps ''name'', p_cpf = str_prop ps ''cpf'',
       p_rg = str_prop ps ''rg'', p_cep = str_prop ps ''cep'',
       p_street = str_prop ps ''street'', p_neighborhood = str_prop ps ''neighborhood'',
       p_city = str_prop ps ''city'', p_state = str_prop ps ''state'',
       p_email = str_prop ps ''email''\<rparr>)"

text \<open>
  \<^verbatim>\<open>app.post("/users", validateBody(createUserSchema), async (req, res, next) => {
    try {
      const newUser = await userRepo.create(req.body);
      res.status(201).json(newUser);
    } catch (error) { next(error); }
  });\<close>
\<close>

definition post_users ::
  "(string \<Rightarrow> bool) \<Rightarrow> (string \<Rightarrow> bool) \<Rightarrow> json \<Rightarrow> Repo \<Rightarrow> response \<times> Repo" where
  "post_users isCPF isEmail b r =
     (case validateBody isEmail (createUserSchema isCPF) b of
        Some err \<Rightarrow> (errorMiddleware err, r)
      | None \<Rightarrow>
          (let (newUser, r') = create (as_NewClient b) r
           in (\<lparr>status = 201, body = client_json newUser\<rparr>, r')))"

text \<open>
  \<^verbatim>\<open>app.put("/users/:id", validateBody(updateUserSchema), async (req, res, next) => {
    try {
      const updated = await userRepo.update(Number(req.params.id), req.body);
      if (!updated) throw new AppError("Usuario nao encontrado", 404);
      res.json(updated);
    } catch (error) { next(error); }
  });\<close>
\<close>

definition put_user ::
  "(string \<Rightarrow> bool) \<Rightarrow> (string \<Rightarrow> bool) \<Rightarrow> number \<Rightarrow> json \<Rightarrow> Repo \<Rightarrow> response \<times> Repo" where
  "put_user isCPF isEmail i b r =
     (case validateBody isEmail (updateUserSchema isCPF) b of
        Some err \<Rightarrow> (errorMiddleware err, r)
      | None \<Rightarrow>
          (case update i (as_PartialClient b) r of
             (None, r') \<Rightarrow> (answer (Inl not_found), r')
           | (Some updated, r') \<Rightarrow> (\<lparr>status = 200, body = client_json updated\<rparr>, r')))"

text \<open>
  \<^verbatim>\<open>app.delete("/users/:id", async (req, res, next) => {
    try {
      const deleted = await userRepo.delete(Number(req.params.id));
      if (!deleted) throw new AppError("Usuario nao encontrado", 404);
      res.json(deleted);
    } catch (error) { next(error); }
  });\<close>
\<close>

definition delete_user :: "number \<Rightarrow> Repo \<Rightarrow> response \<times> Repo" where
  "delete_user i r =
     (case delete i r of
        (None, r') \<Rightarrow> (answer (Inl not_found), r')
      | (Some deleted, r') \<Rightarrow> (\<lparr>status = 200, body = client_json deleted\<rparr>, r'))"

text \<open>
  \<^verbatim>\<open>app.get("/users/:id", async (req, res, next) => {
    try {
      const user = await userRepo.getById(Number(req.params.id));
      if (!user) throw new AppError("Usuario nao encontrado", 404);
      res.json(user);
    } catch (error) { next(error); }
  });\<close>
\<close>

definition get_user :: "number \<Rightarrow> Repo \<Rightarrow> response \<times> Repo" where
  "get_user i r =
     (answer
        (case getById i r of
           None \<Rightarrow> Inl not_found
         | Some user \<Rightarrow> Inr \<lparr>status = 200, body = client_json user\<rparr>),
      r)"

section \<open>Sample values\<close>

text \<open>
  Concrete inputs for the worked instances below: the state of a process that starts
  for the first time, three results of \<open>fake()\<close>, the seeded repository, the create
  payload of the specification's end-to-end example, and partial payloads.
\<close>

definition first_run :: Repo where
  "first_run = \<lparr>users = [], storage = Unreadable, writes = 0\<rparr>"

definition sample_fake :: "nat \<Rightarrow> string" where
  "sample_fake k = (if k = 0 then ''11144477735'' else if k = 1 then ''52998224725''
                    else ''12345678909'')"

definition seeded :: Repo where
  "seeded = saveToFile (first_run\<lparr>users := seed_users sample_fake\<rparr>)"

definition ana :: NewClient where
  "ana = \<lparr>name = ''Ana Silva'', cpf = ''52998224725'', rg = None, cep = ''01001000'',
          street = None, neighborhood = None, city = None, state = None,
          email = ''ana@example.com''\<rparr>"

definition nothing :: PartialClient where
  "nothing = \<lparr>p_id = None, p_name = None, p_cpf = None, p_rg = None, p_cep = None,
              p_street = None, p_neighborhood = None, p_city = None, p_state = None,
              p_email = None\<rparr>"

text \<open>
  States that a client reaches from the seeded repository with one \<open>PUT\<close> whose body
  carries an \<open>id\<close>: \<open>PUT /users/1 {"id": 7}\<close>, \<open>PUT /users/3 {"id": 0}\<close>,
  \<open>PUT /users/3 {"id": 9007199254740992}\<close> (the number \<open>2\<^sup>5\<^sup>3\<close>) and
  \<open>PUT /users/1 {"id": 1e999}\<close> (a literal that reads as \<open>Infinity\<close>).
\<close>

definition renumbered :: Repo where
  "renumbered = run [Update (Finite 1) (nothing\<lparr>p_id := Some (Finite 7)\<rparr>)] seeded"


definition enlarged :: Repo where
  "enlarged = run [Update (Finite 3) (nothing\<lparr>p_id := Some (whole (2 ^ 53))\<rparr>)] seeded"


text \<open>
  Stand-ins for the libraries in the worked instances: a tax-id validator that accepts
  the number of Ana only, an e-mail check that asks for an \<open>@\<close>, and a lookup
  service that rejects every postal code with the message of a failed lookup.
\<close>

definition sample_isCPF :: "string \<Rightarrow> bool" where
  "sample_isCPF s = (s = ''52998224725'')"

definition sample_isEmail :: "string \<Rightarrow> bool" where
  "sample_isEmail s = (CHR ''@'' \<in> set s)"

definition failing_lookup :: "string \<Rightarrow> string + json" where
  "failing_lookup c = Inl ''CEP NOT FOUND''"

text \<open>
  The body \<open>{name: "Al", email: "bad", cpf: "000", cep: "123"}\<close> of the specification
  (there with the names \<open>taxId\<close> and \<open>postalCode\<close>), and the body of Ana with a postal
  code of eight letters.
\<close>

definition al_body :: json where
  "al_body = JObj [(''name'', JStr ''Al''), (''email'', JStr ''bad''),
                   (''cpf'', JStr ''000''), (''cep'', JStr ''123'')]"

definition letters_body :: json where
  "letters_body = JObj [(''name'', JStr ''Ana Silva''), (''email'', JStr ''ana@example.com''),
                        (''cpf'', JStr ''52998224725''), (''cep'', JStr ''abcdefgh'')]"

text \<open>The body that every failed request receives from \<open>errorMiddleware\<close>.\<close>

definition error_body :: "string \<Rightarrow> json" where
  "error_body m = JObj [(''status'', JStr ''error''), (''message'', JStr m)]"

section \<open>Auxiliary notions for the proofs\<close>

text \<open>The position of the first element that satisfies a predicate.\<close>

definition first_at :: "('a \<Rightarrow> bool) \<Rightarrow> 'a list \<Rightarrow> nat" where
  "first_at P xs = length (takeWhile (\<lambda>x. \<not> P x) xs)"

section \<open>Facts about the array primitives\<close>

lemma findIndex_from_eq:
  "findIndex_from P xs k = (if \<exists>x \<in> set xs. P x then k + int (first_at P xs) else - 1)"
  by (induction xs arbitrary: k) (auto simp: first_at_def)

lemma findIndex_eq:
  "findIndex P xs = (if \<exists>x \<in> set xs. P x then int (first_at P xs) else - 1)"
  by (simp add: findIndex_def findIndex_from_eq)

lemma first_at_less: "\<exists>x \<in> set xs. P x \<Longrightarrow> first_at P xs < length xs"
  by (induction xs) (auto simp: first_at_def)

lemma first_at_holds: "\<exists>x \<in> set xs. P x \<Longrightarrow> P (xs ! first_at P xs)"
  by (induction xs) (auto simp: first_at_def)

lemma first_at_before: "j < first_at P xs \<Longrightarrow> \<not> P (xs ! j)"
  unfolding first_at_def by (metis nth_mem set_takeWhileD takeWhile_nth)

lemma find_eq:
  "find P xs = (if \<exists>x \<in> set xs. P x then Some (xs ! first_at P xs) else None)"
  by (induction xs) (auto simp: first_at_def)

section \<open>Facts about the numbers\<close>

lemma round_half_even_of_int: "round_half_even (of_int z) = z"
  by (simp add: round_half_even_def)

lemma bitlen_one: "bitlen 1 = 1"
  by (simp add: bitlen_alt_def)

lemma exponent_of_int:
  assumes "k \<noteq> 0"
  shows "exponent (of_int k) = bitlen \<bar>k\<bar> - 1"
proof -
  have pos: "0 < \<bar>k\<bar>" using assms by simp
  then have "1 \<le> bitlen \<bar>k\<bar>"
    by (simp add: bitlen_alt_def)
  then have nn: "0 \<le> bitlen \<bar>k\<bar> - 1" by simp
  have "(2::int) ^ nat (bitlen \<bar>k\<bar> - 1) \<le> \<bar>k\<bar>"
    using bitlen_bounds [OF pos] by simp
  then have "(of_int ((2::int) ^ nat (bitlen \<bar>k\<bar> - 1)) :: rat) \<le> of_int \<bar>k\<bar>"
    by (simp only: of_int_le_iff)
  then have le: "(2::rat) powi (bitlen \<bar>k\<bar> - 1) \<le> \<bar>of_int k\<bar>"
    using nn by (simp add: power_int_def)
  have q: "quotient_of \<bar>of_int k :: rat\<bar> = (\<bar>k\<bar>, 1)"
    by (simp flip: of_int_abs add: quotient_of_int)
  show ?thesis
    using le by (simp add: exponent_def q bitlen_one)
qed

text \<open>A whole number of magnitude up to \<open>2\<^sup>5\<^sup>3\<close> is a double: rounding leaves it.\<close>

lemma to_double_of_int:
  assumes "k \<noteq> 0" and "\<bar>k\<bar> \<le> 2 ^ 53"
  shows "to_double (of_int k) = Finite (of_int k)"
proof -
  let ?e = "bitlen \<bar>k\<bar> - 1"
  have pos: "0 < \<bar>k\<bar>" using assms(1) by simp
  have e: "exponent (of_int k) = ?e" by (rule exponent_of_int [OF assms(1)])
  have "1 \<le> bitlen \<bar>k\<bar>" using pos by (simp add: bitlen_alt_def)
  then have e0: "0 \<le> ?e" by simp
  have "\<bar>k\<bar> < 2 ^ nat 54" using assms(2) by simp
  then have "bitlen \<bar>k\<bar> \<le> 54" by (simp add: bitlen_le_iff_power)
  then have e53: "?e \<le> 53" by simp
  have v: "of_int (round_half_even (\<bar>of_int k :: rat\<bar> / 2 powi (?e - 52))) * (2::rat) powi (?e - 52)
      = of_int \<bar>k\<bar>"
  proof (cases "?e \<le> 52")
    case True
    define j where "j = nat (52 - ?e)"
    have ulp: "(2::rat) powi (?e - 52) = 1 / 2 ^ j"
      using True
      by (cases "?e = 52") (simp_all add: power_int_def j_def inverse_eq_divide power_one_over)
    have "\<bar>of_int k :: rat\<bar> / (1 / 2 ^ j) = of_int (\<bar>k\<bar> * 2 ^ j)"
      by simp
    then show ?thesis
      by (simp only: ulp round_half_even_of_int) simp
  next
    case False
    with e53 have e: "?e = 53" by simp
    then have "(2::int) ^ 53 \<le> \<bar>k\<bar>"
      using bitlen_bounds [OF pos] by simp
    with assms(2) have k: "\<bar>k\<bar> = 2 ^ 53" by simp
    have u: "(2::rat) powi (?e - 52) = 2" by (simp add: e)
    have d: "\<bar>of_int k :: rat\<bar> / 2 = of_int (2 ^ 52)"
      by (simp flip: of_int_abs add: k)
    have "of_int (round_half_even (of_int (2 ^ 52))) * (2::rat) = of_int \<bar>k\<bar>"
      by (simp only: round_half_even_of_int k) simp
    then show ?thesis
      by (simp only: u d)
  qed
  have small: "\<not> (2::rat) powi 1024 \<le> of_int \<bar>k\<bar>"
  proof -
    have "(of_int \<bar>k\<bar> :: rat) \<le> of_int (2 ^ 53)"
      using assms(2) by (simp only: of_int_le_iff)
    also have "\<dots> < 2 powi 1024" by simp
    finally show ?thesis by simp
  qed
  have nz: "(of_int \<bar>k\<bar> :: rat) \<noteq> 0" using assms(1) by simp
  have sg: "sgn (of_int k :: rat) * of_int \<bar>k\<bar> = of_int k"
    by (simp add: sgn_if)
  have kz: "(of_int k :: rat) \<noteq> 0" using assms(1) by simp
  have m: "max (exponent (of_int k)) (- 1022) = ?e" using e e0 by simp
  show ?thesis
    by (simp only: to_double_def Let_def m v small nz kz sg if_False)
qed

text \<open>Below \<open>2\<^sup>5\<^sup>3\<close> in magnitude, \<open>x + 1\<close> on a whole number is the next whole number.\<close>

lemma plus_one_whole:
  assumes "\<bar>n\<bar> < 2 ^ 53"
  shows "plus_one (whole n) = whole (n + 1)"
proof (cases "n + 1 = 0")
  case True
  then have "n = - 1" by simp
  then show ?thesis by (simp add: plus_one_def whole_def to_double_def)
next
  case False
  have "\<bar>n + 1\<bar> \<le> 2 ^ 53" using assms by simp
  from to_double_of_int [OF False this] show ?thesis
    by (simp add: plus_one_def whole_def)
qed

text \<open>At \<open>2\<^sup>5\<^sup>3\<close> the sum \<open>2\<^sup>5\<^sup>3 + 1\<close> is a tie and rounds back to \<open>2\<^sup>5\<^sup>3\<close>.\<close>

lemma plus_one_at_2_53: "plus_one (Finite 9007199254740992) = Finite 9007199254740992"
  by code_simp

lemma plus_one_small:
  "plus_one (Finite 0) = Finite 1"
  "plus_one (Finite 3) = Finite 4"
  using plus_one_whole [of 0] plus_one_whole [of 3] by (simp_all add: whole_def)

lemma whole_eq_iff: "whole a = whole b \<longleftrightarrow> a = b"
  by (simp add: whole_def)



lemma strict_eq_Finite: "strict_eq (Finite a) (Finite b) \<longleftrightarrow> a = b"
  by (simp add: strict_eq_def unsigned_zero_def)

section \<open>Facts about the repository\<close>

lemma users_seeded: "users seeded = seed_users sample_fake"
  by (simp add: seeded_def saveToFile_def first_run_def)

lemma ids_seeded: "map id' (users seeded) = map whole [1, 2, 3]"
  by (simp add: users_seeded seed_users_def whole_def)

lemma create_fst: "fst (create user r) = with_id user (plus_one (last_id (users r)))"
  by (simp add: create_def Let_def)

lemma create_users:
  "users (snd (create user r)) = users r @ [with_id user (plus_one (last_id (users r)))]"
  by (simp add: create_def Let_def saveToFile_def)

lemma id_with_id: "id' (with_id user n) = n"
  by (simp add: with_id_def)

lemma last_id_eq: "last_id us = (if us = [] then whole 0 else id' (last us))"
  by (simp add: last_id_def whole_def split: list.split)

lemma Max_last:
  fixes ks :: "int list"
  assumes "ks \<noteq> []" and "\<forall>k \<in> set ks. k \<le> last ks"
  shows "Max (set ks) = last ks"
  using assms by (intro Max_eqI) auto

lemma update_hit:
  assumes "\<exists>u \<in> set (users r). id_is i u"
  shows "update i d r =
     (Some (spread (users r ! first_at (id_is i) (users r)) d),
      saveToFile (r\<lparr>users := (users r)[first_at (id_is i) (users r) :=
         spread (users r ! first_at (id_is i) (users r)) d]\<rparr>))"
  using assms first_at_less[OF assms]
  by (simp add: update_def findIndex_eq Let_def saveToFile_def)



lemma delete_miss:
  assumes "\<not> (\<exists>u \<in> set (users r). id_is i u)"
  shows "delete i r = (None, r)"
  using assms by (simp add: delete_def findIndex_eq)

lemma getById_eq:
  "getById i r = (if \<exists>u \<in> set (users r). id_is i u
                  then Some (users r ! first_at (id_is i) (users r)) else None)"
  by (simp add: getById_def find_eq)

lemma getById_Some:
  assumes "getById i r = Some u"
  shows "(\<exists>w \<in> set (users r). id_is i w) \<and> u = users r ! first_at (id_is i) (users r)"
  using assms by (simp add: getById_eq split: if_splits)

lemma spread_nothing: "spread u nothing = u"
  by (simp add: spread_def nothing_def over_def over_opt_def)

lemma users_saveToFile: "users (saveToFile r) = users r"
  by (simp add: saveToFile_def)

lemmas sample_defs = update_def findIndex_def users_seeded seed_users_def id_is_def Let_def
  saveToFile_def spread_def over_def over_opt_def nothing_def create_def with_id_def
  last_id_def ana_def getById_def delete_def strict_eq_Finite plus_one_small

lemma ids_renumbered: "map id' (users renumbered) = map whole [7, 2, 3]"
  by (simp add: renumbered_def sample_defs whole_def)


lemma ids_enlarged: "map id' (users enlarged) = map whole [1, 2, 2 ^ 53]"
  by (simp add: enlarged_def sample_defs whole_def)


section \<open>Claims\<close>

subsection \<open>C1: the id that create assigns\<close>

lemma create_id_after_whole:
  assumes "users r \<noteq> []" and "id' (last (users r)) = whole n" and "\<bar>n\<bar> < 2 ^ 53"
  shows "id' (fst (create user r)) = whole (n + 1)"
  using assms by (simp add: create_fst id_with_id last_id_eq plus_one_whole)

lemma create_id_empty:
  assumes "users r = []"
  shows "id' (fst (create user r)) = whole 1"
  using assms plus_one_whole [of 0] by (simp add: create_fst id_with_id last_id_eq)

lemma create_id_after_wholes:
  assumes "map id' (users r) = map whole ks"
    and "\<forall>k \<in> set ks. k \<le> last ks \<and> \<bar>last ks\<bar> < 2 ^ 53"
  shows "id' (fst (create user r)) = whole (if ks = [] then 1 else Max (set ks) + 1)"
proof (cases "ks = []")
  case True
  with assms(1) have "users r = []" by simp
  with True show ?thesis by (simp add: create_id_empty)
next
  case False
  with assms(1) have ne: "users r \<noteq> []" by auto
  have "last (map id' (users r)) = last (map whole ks)" by (simp only: assms(1))
  with ne False have l: "id' (last (users r)) = whole (last ks)"
    by (simp add: last_map)
  from False assms(2) have b: "\<bar>last ks\<bar> < 2 ^ 53" by (meson last_in_set)
  from False assms(2) have "Max (set ks) = last ks" by (intro Max_last) auto
  with create_id_after_whole [OF ne l b] False show ?thesis by simp
qed

text \<open>
  C1.  The claim reads: for every collection state and every valid create payload, the
  record that \<open>create\<close> returns has the id one more than the previous maximum id of the
  collection (1 when the collection is empty), and the collection grows by exactly one
  record.

  The source takes the id of the \<^emph>\<open>last\<close> record, not the maximum, and adds 1 in the
  arithmetic of the platform, which is exact for whole numbers below \<open>2\<^sup>5\<^sup>3\<close> in
  magnitude.  What holds for every state: the record that \<open>create\<close> returns is appended
  and the length grows by one.  The id is 1 when the collection is empty; it is one
  more than the id of the last record when that id is a whole number below \<open>2\<^sup>5\<^sup>3\<close> in
  magnitude; and it is one more than the maximum when moreover all ids are whole
  numbers and none is larger than the last one.
\<close>

theorem create_id_and_length:
  "users (snd (create user r)) = users r @ [fst (create user r)]
   \<and> length (users (snd (create user r))) = length (users r) + 1
   \<and> (users r = [] \<longrightarrow> id' (fst (create user r)) = whole 1)
   \<and> (\<forall>n. users r \<noteq> [] \<and> id' (last (users r)) = whole n \<and> \<bar>n\<bar> < 2 ^ 53 \<longrightarrow>
         id' (fst (create user r)) = whole (n + 1))
   \<and> (\<forall>ks. map id' (users r) = map whole ks
            \<and> (\<forall>k \<in> set ks. k \<le> last ks \<and> \<bar>last ks\<bar> < 2 ^ 53) \<longrightarrow>
         id' (fst (create user r)) = whole (if ks = [] then 1 else Max (set ks) + 1))"
proof (intro conjI allI impI)
  show "users (snd (create user r)) = users r @ [fst (create user r)]"
    by (simp add: create_fst create_users)
  then show "length (users (snd (create user r))) = length (users r) + 1"
    by simp
next
  assume "users r = []"
  then show "id' (fst (create user r)) = whole 1" by (rule create_id_empty)
next
  fix n
  assume "users r \<noteq> [] \<and> id' (last (users r)) = whole n \<and> \<bar>n\<bar> < 2 ^ 53"
  then show "id' (fst (create user r)) = whole (n + 1)"
    by (simp add: create_id_after_whole)
next
  fix ks
  assume "map id' (users r) = map whole ks
      \<and> (\<forall>k \<in> set ks. k \<le> last ks \<and> \<bar>last ks\<bar> < 2 ^ 53)"
  then show "id' (fst (create user r)) = whole (if ks = [] then 1 else Max (set ks) + 1)"
    using create_id_after_wholes by blast
qed

text \<open>On the seeded repository (ids 1, 2, 3) the payload of Ana receives the id 4.\<close>

theorem create_id_and_length_witness:
  "map id' (users seeded) = map whole [1, 2, 3]
   \<and> id' (fst (create ana seeded)) = whole 4
   \<and> Max (set [1, 2, 3 :: int]) + 1 = 4
   \<and> length (users (snd (create ana seeded))) = 4"
proof -
  note all = create_id_and_length [of ana seeded]
  have h: "map id' (users seeded) = map whole [1, 2, 3]
      \<and> (\<forall>k \<in> set [1, 2, 3 :: int]. k \<le> last [1, 2, 3] \<and> \<bar>last [1, 2, 3 :: int]\<bar> < 2 ^ 53)"
    by (simp add: ids_seeded)
  have 1: "id' (fst (create ana seeded))
      = whole (if [1, 2, 3 :: int] = [] then 1 else Max (set [1, 2, 3]) + 1)"
    by (rule all [THEN conjunct2, THEN conjunct2, THEN conjunct2, THEN conjunct2,
          THEN spec, THEN mp, OF h])
  have 2: "length (users (snd (create ana seeded))) = length (users seeded) + 1"
    by (rule all [THEN conjunct2, THEN conjunct1])
  have 3: "length (users seeded) = 3"
    by (simp add: users_seeded seed_users_def)
  from 1 2 3 show ?thesis
    by (simp add: ids_seeded)
qed

text \<open>
  After \<open>PUT /users/1 {"id": 7}\<close> the ids are 7, 2, 3: \<open>create\<close> assigns 4, and one more
  than the maximum is 8.  After \<open>PUT /users/3 {"id": 9007199254740992}\<close> the ids are
  1, 2, \<open>2\<^sup>5\<^sup>3\<close>, the last is the maximum, and \<open>create\<close> assigns \<open>2\<^sup>5\<^sup>3\<close> again.
\<close>

theorem create_id_not_max_counterexample:
  "map id' (users renumbered) = map whole [7, 2, 3]
   \<and> id' (fst (create ana renumbered)) = whole 4
   \<and> Max (set [7, 2, 3 :: int]) + 1 = 8
   \<and> whole 4 \<noteq> whole 8
   \<and> map id' (users enlarged) = map whole [1, 2, 2 ^ 53]
   \<and> id' (fst (create ana enlarged)) = whole (2 ^ 53)
   \<and> whole (2 ^ 53) \<noteq> whole (2 ^ 53 + 1)"
proof -
  have "id' (fst (create ana renumbered)) = whole 4"
    by (simp add: renumbered_def sample_defs whole_def)
  moreover have "id' (fst (create ana enlarged)) = whole (2 ^ 53)"
    by (simp add: enlarged_def sample_defs whole_def plus_one_at_2_53)
  ultimately show ?thesis
    by (simp add: ids_renumbered ids_enlarged whole_eq_iff)
qed

subsection \<open>C2: update replaces the supplied fields only\<close>

text \<open>
  C2.  The claim reads: for every record of the collection and every partial payload,
  \<open>update\<close> changes only the fields that the payload supplies; every field that is not
  supplied, and in particular the \<open>id\<close>, keeps the value of the record before the update.

  The payload has the type \<open>Partial<IClient>\<close>, which has the property \<open>id\<close>, and the
  spread treats it like every other property.  What holds: \<open>update\<close> returns a record
  that stands in the collection at the place of the old one; each of the ten fields,
  the \<open>id\<close> among them, keeps its value when the payload does not supply it and takes
  the value of the payload when it does.
\<close>

theorem update_changes_only_supplied_fields:
  assumes "getById i r = Some u"
  shows "\<exists>u'. fst (update i d r) = Some u'
     \<and> (\<exists>k < length (users r).
           users r ! k = u \<and> users (snd (update i d r)) = (users r)[k := u'])
     \<and> (p_name d = None \<longrightarrow> name u' = name u)
     \<and> (p_email d = None \<longrightarrow> email u' = email u)
     \<and> (p_cpf d = None \<longrightarrow> cpf u' = cpf u)
     \<and> (p_cep d = None \<longrightarrow> cep u' = cep u)
     \<and> (p_rg d = None \<longrightarrow> rg u' = rg u)
     \<and> (p_street d = None \<longrightarrow> street u' = street u)
     \<and> (p_neighborhood d = None \<longrightarrow> neighborhood u' = neighborhood u)
     \<and> (p_city d = None \<longrightarrow> city u' = city u)
     \<and> (p_state d = None \<longrightarrow> state u' = state u)
     \<and> (p_id d = None \<longrightarrow> id' u' = id' u)
     \<and> (\<forall>v. p_name d = Some v \<longrightarrow> name u' = v)
     \<and> (\<forall>v. p_email d = Some v \<longrightarrow> email u' = v)
     \<and> (\<forall>v. p_cpf d = Some v \<longrightarrow> cpf u' = v)
     \<and> (\<forall>v. p_cep d = Some v \<longrightarrow> cep u' = v)
     \<and> (\<forall>v. p_rg d = Some v \<longrightarrow> rg u' = Some v)
     \<and> (\<forall>v. p_street d = Some v \<longrightarrow> street u' = Some v)
     \<and> (\<forall>v. p_neighborhood d = Some v \<longrightarrow> neighborhood u' = Some v)
     \<and> (\<forall>v. p_city d = Some v \<longrightarrow> city u' = Some v)
     \<and> (\<forall>v. p_state d = Some v \<longrightarrow> state u' = Some v)
     \<and> (\<forall>v. p_id d = Some v \<longrightarrow> id' u' = v)"
proof -
  let ?k = "first_at (id_is i) (users r)"
  from assms have hit: "\<exists>w \<in> set (users r). id_is i w" and u: "u = users r ! ?k"
    using getById_Some by blast+
  have res: "fst (update i d r) = Some (spread u d)"
    by (simp add: update_hit [OF hit] u)
  have place: "?k < length (users r) \<and> users r ! ?k = u
      \<and> users (snd (update i d r)) = (users r)[?k := spread u d]"
    using first_at_less [OF hit] by (simp add: update_hit [OF hit] u users_saveToFile)
  have fields: "(p_name d = None \<longrightarrow> name (spread u d) = name u)
     \<and> (p_email d = None \<longrightarrow> email (spread u d) = email u)
     \<and> (p_cpf d = None \<longrightarrow> cpf (spread u d) = cpf u)
     \<and> (p_cep d = None \<longrightarrow> cep (spread u d) = cep u)
     \<and> (p_rg d = None \<longrightarrow> rg (spread u d) = rg u)
     \<and> (p_street d = None \<longrightarrow> street (spread u d) = street u)
     \<and> (p_neighborhood d = None \<longrightarrow> neighborhood (spread u d) = neighborhood u)
     \<and> (p_city d = None \<longrightarrow> city (spread u d) = city u)
     \<and> (p_state d = None \<longrightarrow> state (spread u d) = state u)
     \<and> (p_id d = None \<longrightarrow> id' (spread u d) = id' u)
     \<and> (\<forall>v. p_name d = Some v \<longrightarrow> name (spread u d) = v)
     \<and> (\<forall>v. p_email d = Some v \<longrightarrow> email (spread u d) = v)
     \<and> (\<forall>v. p_cpf d = Some v \<longrightarrow> cpf (spread u d) = v)
     \<and> (\<forall>v. p_cep d = Some v \<longrightarrow> cep (spread u d) = v)
     \<and> (\<forall>v. p_rg d = Some v \<longrightarrow> rg (spread u d) = Some v)
     \<and> (\<forall>v. p_street d = Some v \<longrightarrow> street (spread u d) = Some v)
     \<and> (\<forall>v. p_neighborhood d = Some v \<longrightarrow> neighborhood (spread u d) = Some v)
     \<and> (\<forall>v. p_city d = Some v \<longrightarrow> city (spread u d) = Some v)
     \<and> (\<forall>v. p_state d = Some v \<longrightarrow> state (spread u d) = Some v)
     \<and> (\<forall>v. p_id d = Some v \<longrightarrow> id' (spread u d) = v)"
    by (simp add: spread_def over_def over_opt_def)
  from place have ex: "\<exists>k < length (users r).
      users r ! k = u \<and> users (snd (update i d r)) = (users r)[k := spread u d]"
    by blast
  show ?thesis
    by (rule exI [of _ "spread u d"]) (rule conjI [OF res conjI [OF ex fields]])
qed

text \<open>
  \<open>PUT /users/2\<close> with a new e-mail address on the seeded repository: the address
  changes, the id and the name stay.
\<close>

theorem update_changes_only_supplied_fields_witness:
  "getById (Finite 2) seeded = Some (users seeded ! 1)
   \<and> map_option email (fst (update (Finite 2) (nothing\<lparr>p_email := Some ''maria@example.org''\<rparr>) seeded))
       = Some ''maria@example.org''
   \<and> map_option id' (fst (update (Finite 2) (nothing\<lparr>p_email := Some ''maria@example.org''\<rparr>) seeded))
       = Some (Finite 2)
   \<and> map_option name (fst (update (Finite 2) (nothing\<lparr>p_email := Some ''maria@example.org''\<rparr>) seeded))
       = Some ''Maria''"
proof -
  have present: "getById (Finite 2) seeded = Some (users seeded ! 1)"
    by (simp add: sample_defs)
  from update_changes_only_supplied_fields [OF present,
      of "nothing\<lparr>p_email := Some ''maria@example.org''\<rparr>"]
  obtain u' where
    "fst (update (Finite 2) (nothing\<lparr>p_email := Some ''maria@example.org''\<rparr>) seeded) = Some u'"
    "email u' = ''maria@example.org''" "id' u' = id' (users seeded ! 1)"
    "name u' = name (users seeded ! 1)"
    by (auto simp: nothing_def)
  with present show ?thesis
    by (simp add: users_seeded seed_users_def)
qed

text \<open>
  \<open>PUT /users/1 {"id": 7}\<close> on the seeded repository returns the record of Felipe with
  the id 7: the id did not keep its value.
\<close>

theorem update_overwrites_id_counterexample:
  "map_option id' (getById (Finite 1) seeded) = Some (Finite 1)
   \<and> map_option id' (fst (update (Finite 1) (nothing\<lparr>p_id := Some (Finite 7)\<rparr>) seeded)) = Some (Finite 7)"
  by (simp add: sample_defs)

subsection \<open>C3: distinct ids\<close>









subsection \<open>C7: delete of an id that no record has\<close>

text \<open>
  C7.  For every id that no record of the collection has, \<open>delete\<close> returns absent and
  leaves the repository as it was: the same records in the same order, the same file,
  and no call of \<open>writeFile\<close>.
\<close>

theorem delete_absent_changes_nothing:
  assumes "\<forall>u \<in> set (users r). \<not> id_is i u"
  shows "fst (delete i r) = None
     \<and> users (snd (delete i r)) = users r
     \<and> storage (snd (delete i r)) = storage r
     \<and> writes (snd (delete i r)) = writes r
     \<and> snd (delete i r) = r"
  using assms by (simp add: delete_miss)

text \<open>\<open>DELETE /users/9\<close> on the seeded repository, which has the ids 1, 2, 3.\<close>

theorem delete_absent_changes_nothing_witness:
  "map id' (users seeded) = map whole [1, 2, 3]
   \<and> fst (delete (Finite 9) seeded) = None
   \<and> users (snd (delete (Finite 9) seeded)) = users seeded
   \<and> writes (snd (delete (Finite 9) seeded)) = writes seeded"
proof -
  have "\<forall>u \<in> set (users seeded). \<not> id_is (Finite 9) u"
    by (simp add: users_seeded seed_users_def id_is_def strict_eq_Finite)
  from delete_absent_changes_nothing [OF this] show ?thesis
    by (simp add: ids_seeded)
qed

subsection \<open>C10: update with the empty payload\<close>

text \<open>
  C10.  For every record of the collection, \<open>update\<close> with the empty partial payload
  returns a record identical to the one before the update and leaves the records of the
  collection and their order unchanged.
\<close>

theorem update_with_empty_payload:
  assumes "getById i r = Some u"
  shows "fst (update i nothing r) = Some u
     \<and> users (snd (update i nothing r)) = users r"
proof -
  from assms have hit: "\<exists>w \<in> set (users r). id_is i w"
    and u: "u = users r ! first_at (id_is i) (users r)"
    using getById_Some by blast+
  show ?thesis
    by (simp add: update_hit [OF hit] u spread_nothing users_saveToFile)
qed

text \<open>\<open>PUT /users/2 {}\<close> on the seeded repository.\<close>

theorem update_with_empty_payload_witness:
  "getById (Finite 2) seeded = Some (users seeded ! 1)
   \<and> fst (update (Finite 2) nothing seeded) = Some (users seeded ! 1)
   \<and> users (snd (update (Finite 2) nothing seeded)) = users seeded"
proof -
  have present: "getById (Finite 2) seeded = Some (users seeded ! 1)"
    by (simp add: sample_defs)
  from update_with_empty_payload [OF present] present show ?thesis by simp
qed

subsection \<open>C9: the two validation endpoints do not touch the repository\<close>

text \<open>
  C9.  For every state of the repository, every id, every tax-id validator and every
  behaviour of the lookup service, handling \<open>GET /users/isCPF/:id\<close> or
  \<open>GET /users/isCEP/:id\<close> leaves the repository as it was: the collection, the file and
  the number of writes.
\<close>

theorem validation_endpoints_leave_repository:
  "snd (get_isCPF isCPF i r) = r \<and> snd (get_isCEP lookup i r) = r"
  by (simp add: get_isCPF_def get_isCEP_def)

subsection \<open>C5: the answer to a failed postal-code lookup\<close>

lemma get_isCEP_lookup_rejects:
  assumes "getById i r = Some u" and "lookup (cep u) = Inl m"
  shows "fst (get_isCEP lookup i r) = \<lparr>status = 500, body = error_body ''Internal Server Error''\<rparr>"
  using assms by (simp add: get_isCEP_def answer_def errorMiddleware_def error_body_def)

text \<open>
  C5.  The claim reads: when the lookup service rejects the postal code of a stored
  record, \<open>GET /users/isCEP/:id\<close> answers with status 400 and a body that carries the
  postal code and the message of the lookup error.

  In this source the rejection is passed to \<open>next\<close> unchanged; it is not an \<open>AppError\<close>,
  so \<open>errorMiddleware\<close> answers 500 with the fixed message.  At \<open>GET /users/isCEP/1\<close> on
  the seeded repository, with a lookup that rejects: the status is 500, and the body
  has neither the postal code \<open>11111111\<close> nor the message of the lookup.
\<close>

theorem isCEP_lookup_failure_answers_500:
  "map_option cep (getById (Finite 1) seeded) = Some ''11111111''
   \<and> failing_lookup ''11111111'' = Inl ''CEP NOT FOUND''
   \<and> fst (get_isCEP failing_lookup (Finite 1) seeded)
       = \<lparr>status = 500,
          body = JObj [(''status'', JStr ''error''),
                       (''message'', JStr ''Internal Server Error'')]\<rparr>"
proof -
  have present: "getById (Finite 1) seeded = Some (users seeded ! 0)"
    by (simp add: sample_defs)
  have code: "cep (users seeded ! 0) = ''11111111''"
    by (simp add: users_seeded seed_users_def)
  have rejects: "failing_lookup (cep (users seeded ! 0)) = Inl ''CEP NOT FOUND''"
    by (simp add: failing_lookup_def)
  from get_isCEP_lookup_rejects [where lookup = failing_lookup, OF present rejects]
    present code show ?thesis
    by (simp add: failing_lookup_def error_body_def)
qed

subsection \<open>C4: the answer to a body that fails validation\<close>

lemma validateBody_eq:
  "validateBody isEmail schema b =
     (if zod_issues isEmail schema b = [] then None
      else Some (AppError ''Invalid request data'' 400))"
  by (simp add: validateBody_def)

lemma errorMiddleware_invalid:
  "errorMiddleware (AppError ''Invalid request data'' 400)
     = \<lparr>status = 400, body = error_body ''Invalid request data''\<rparr>"
  by (simp add: errorMiddleware_def error_body_def)

lemma post_users_invalid:
  assumes "zod_issues isEmail (createUserSchema isCPF) b \<noteq> []"
  shows "post_users isCPF isEmail b r
     = (\<lparr>status = 400, body = error_body ''Invalid request data''\<rparr>, r)"
  using assms by (simp add: post_users_def validateBody_eq errorMiddleware_invalid)

lemma put_user_invalid:
  assumes "zod_issues isEmail (updateUserSchema isCPF) b \<noteq> []"
  shows "put_user isCPF isEmail i b r
     = (\<lparr>status = 400, body = error_body ''Invalid request data''\<rparr>, r)"
  using assms by (simp add: put_user_def validateBody_eq errorMiddleware_invalid)

lemma al_body_issues:
  assumes "\<not> isCPF ''000''" and "\<not> isEmail ''bad''"
  shows "zod_issues isEmail (createUserSchema isCPF) al_body =
     [(''name'', Message ''Nome deve ter ao menos 3 letras''),
      (''email'', Message (''Formato de email inv'' @ [CHR 0xE1] @ ''lido'')),
      (''cpf'', Message (''CPF inv'' @ [CHR 0xE1] @ ''lido'')),
      (''cep'', Message (''CEP deve conter 8 d'' @ [CHR 0xED] @ ''gitos''))]"
  using assms by (simp add: zod_issues_def createUserSchema_def al_body_def run_check_def)

text \<open>
  C4.  The claim reads: for every create or update payload that violates a schema rule,
  \<open>POST /users\<close> and \<open>PUT /users/:id\<close> answer with status 400 and a body with a message
  and a map from each field to its error messages; in particular the payload
  \<open>{name: "Al", email: "bad", taxId: "000", postalCode: "123"}\<close> is rejected with field
  errors for all four required fields.

  In this source \<open>validateBody\<close> replaces the validation error by
  \<open>AppError("Invalid request data", 400)\<close> and \<open>errorMiddleware\<close> answers with
  \<open>{status: "error", message}\<close>: the list of issues does not reach the response.  What
  holds: a body with at least one issue is answered with status 400 and the body
  \<open>{status: "error", message: "Invalid request data"}\<close>, by both routes, and the
  repository is left as it was; the payload of the claim has one issue for each of the
  four required fields (when the libraries reject the tax id \<open>000\<close> and the address
  \<open>bad\<close>) and receives that answer.
\<close>

theorem invalid_body_answers_400:
  "(zod_issues isEmail (createUserSchema isCPF) b \<noteq> [] \<longrightarrow>
      post_users isCPF isEmail b r
        = (\<lparr>status = 400, body = error_body ''Invalid request data''\<rparr>, r))
   \<and> (zod_issues isEmail (updateUserSchema isCPF) b \<noteq> [] \<longrightarrow>
      put_user isCPF isEmail i b r
        = (\<lparr>status = 400, body = error_body ''Invalid request data''\<rparr>, r))
   \<and> (\<not> isCPF ''000'' \<and> \<not> isEmail ''bad'' \<longrightarrow>
      map fst (zod_issues isEmail (createUserSchema isCPF) al_body)
        = [''name'', ''email'', ''cpf'', ''cep'']
      \<and> post_users isCPF isEmail al_body r
        = (\<lparr>status = 400, body = error_body ''Invalid request data''\<rparr>, r))"
proof (intro conjI impI)
  assume "zod_issues isEmail (createUserSchema isCPF) b \<noteq> []"
  then show "post_users isCPF isEmail b r
      = (\<lparr>status = 400, body = error_body ''Invalid request data''\<rparr>, r)"
    by (rule post_users_invalid)
next
  assume "zod_issues isEmail (updateUserSchema isCPF) b \<noteq> []"
  then show "put_user isCPF isEmail i b r
      = (\<lparr>status = 400, body = error_body ''Invalid request data''\<rparr>, r)"
    by (rule put_user_invalid)
next
  assume "\<not> isCPF ''000'' \<and> \<not> isEmail ''bad''"
  then show "map fst (zod_issues isEmail (createUserSchema isCPF) al_body)
      = [''name'', ''email'', ''cpf'', ''cep'']"
    by (simp add: al_body_issues)
next
  assume a: "\<not> isCPF ''000'' \<and> \<not> isEmail ''bad''"
  then have "zod_issues isEmail (createUserSchema isCPF) al_body \<noteq> []"
    by (simp add: al_body_issues)
  then show "post_users isCPF isEmail al_body r
      = (\<lparr>status = 400, body = error_body ''Invalid request data''\<rparr>, r)"
    by (rule post_users_invalid)
qed

text \<open>
  The payload of the claim sent to \<open>POST /users\<close> and, with the name alone, to
  \<open>PUT /users/1\<close>, on the seeded repository.
\<close>

theorem invalid_body_answers_400_witness:
  "status (fst (post_users sample_isCPF sample_isEmail al_body seeded)) = 400
   \<and> body (fst (post_users sample_isCPF sample_isEmail al_body seeded))
       = JObj [(''status'', JStr ''error''), (''message'', JStr ''Invalid request data'')]
   \<and> snd (post_users sample_isCPF sample_isEmail al_body seeded) = seeded
   \<and> map fst (zod_issues sample_isEmail (createUserSchema sample_isCPF) al_body)
       = [''name'', ''email'', ''cpf'', ''cep'']
   \<and> put_user sample_isCPF sample_isEmail (Finite 1) (JObj [(''name'', JStr ''Al'')]) seeded
       = (\<lparr>status = 400, body = error_body ''Invalid request data''\<rparr>, seeded)"
proof -
  note all = invalid_body_answers_400 [of sample_isEmail sample_isCPF
      "JObj [(''name'', JStr ''Al'')]" seeded "Finite 1"]
  have lib: "\<not> sample_isCPF ''000'' \<and> \<not> sample_isEmail ''bad''"
    by (simp add: sample_isCPF_def sample_isEmail_def)
  have upd: "zod_issues sample_isEmail (updateUserSchema sample_isCPF)
      (JObj [(''name'', JStr ''Al'')]) \<noteq> []"
    by (simp add: zod_issues_def updateUserSchema_def partial_def createUserSchema_def
        run_check_def)
  have 1: "put_user sample_isCPF sample_isEmail (Finite 1) (JObj [(''name'', JStr ''Al'')]) seeded
       = (\<lparr>status = 400, body = error_body ''Invalid request data''\<rparr>, seeded)"
    by (rule all [THEN conjunct2, THEN conjunct1, THEN mp, OF upd])
  have 2: "map fst (zod_issues sample_isEmail (createUserSchema sample_isCPF) al_body)
        = [''name'', ''email'', ''cpf'', ''cep'']
      \<and> post_users sample_isCPF sample_isEmail al_body seeded
        = (\<lparr>status = 400, body = error_body ''Invalid request data''\<rparr>, seeded)"
    by (rule all [THEN conjunct2, THEN conjunct2, THEN mp, OF lib])
  from 1 2 show ?thesis by (simp add: error_body_def)
qed

text \<open>
  The answer to the payload of the claim is the object with the two properties
  \<open>status\<close> and \<open>message\<close>: it has no property \<open>errors\<close>.
\<close>

theorem invalid_body_no_field_errors_counterexample:
  "body (fst (post_users sample_isCPF sample_isEmail al_body seeded))
     = JObj [(''status'', JStr ''error''), (''message'', JStr ''Invalid request data'')]
   \<and> map_of (props_of (body (fst (post_users sample_isCPF sample_isEmail al_body seeded))))
       ''errors'' = None"
proof -
  have "zod_issues sample_isEmail (createUserSchema sample_isCPF) al_body \<noteq> []"
    by (simp add: al_body_issues sample_isCPF_def sample_isEmail_def)
  then show ?thesis
    by (simp add: post_users_invalid error_body_def props_of_def)
qed

subsection \<open>C6: the check of the postal code\<close>

lemma cep_check_accepts_iff:
  "parse_type isEmail (ZString [Length 8 m]) (Some (JStr s)) = [] \<longleftrightarrow> length s = 8"
  by (simp add: run_check_def)

text \<open>
  C6.  The claim reads: the validator accepts a postal code exactly when it is a string
  of exactly eight digits.

  The schema checks the length only (\<open>z.string().length(8)\<close>), under the message
  \<open>CEP deve conter 8 digitos\<close>.  The body of Ana with the postal code \<open>abcdefgh\<close> has no
  issue, passes \<open>validateBody\<close> and is stored by \<open>POST /users\<close> with status 201.
\<close>

theorem cep_of_letters_is_accepted:
  "zod_issues sample_isEmail (createUserSchema sample_isCPF) letters_body = []
   \<and> validateBody sample_isEmail (createUserSchema sample_isCPF) letters_body = None
   \<and> status (fst (post_users sample_isCPF sample_isEmail letters_body seeded)) = 201
   \<and> map cep (users (snd (post_users sample_isCPF sample_isEmail letters_body seeded)))
       = [''11111111'', ''22222222'', ''33333333'', ''abcdefgh'']"
proof -
  have ok: "zod_issues sample_isEmail (createUserSchema sample_isCPF) letters_body = []"
    by (simp add: zod_issues_def createUserSchema_def letters_body_def run_check_def
        sample_isCPF_def sample_isEmail_def)
  then have pass: "validateBody sample_isEmail (createUserSchema sample_isCPF) letters_body = None"
    by (simp add: validateBody_def)
  have "cep (as_NewClient letters_body) = ''abcdefgh''"
    by (simp add: as_NewClient_def letters_body_def props_of_def required_def str_prop_def)
  with ok pass show ?thesis
    by (simp add: post_users_def create_def Let_def saveToFile_def with_id_def
        users_seeded seed_users_def)
qed

subsection \<open>C8: the records and the storage file\<close>
















end
